theory Spec2Isabelle
  imports Main "HOL-Library.Word" "HOL-Library.Option_ord"
begin

section \<open>Basic types: unsigned 64-bit integers and their decimal rendering\<close>

text \<open>
  Go's \<^verbatim>\<open>uint64\<close> is a 64-bit word: \<open>+\<close> wraps around at \<open>2 ^ 64\<close>.
  \<^verbatim>\<open>const exitEpoch = math.MaxUint64\<close> (framework.go, line 15).
\<close>

type_synonym uint64 = "64 word"

definition exitEpoch :: uint64 where
  "exitEpoch = 18446744073709551615"

text \<open>
  The verb \<^verbatim>\<open>%d\<close> of \<^verbatim>\<open>fmt.Sprintf\<close> on an unsigned value (and
  \<^verbatim>\<open>strconv.FormatUint(_, 10)\<close>): the decimal digits, most significant first, no sign and
  no leading zero.
\<close>

definition digit :: "nat \<Rightarrow> char" where
  "digit d = ''0123456789'' ! d"

fun FormatUint :: "nat \<Rightarrow> string" where
  "FormatUint n = (if n < 10 then [digit n] else FormatUint (n div 10) @ [digit (n mod 10)])"

declare FormatUint.simps [simp del]

text \<open>
  Reading a decimal string back (\<^verbatim>\<open>strconv.ParseUint(s, 10, 64)\<close>): an error (\<open>None\<close>) on
  the empty string, on a character that is not a digit and on a value that does not fit 64 bits.
\<close>

definition isDigit :: "char \<Rightarrow> bool" where
  "isDigit c = (c \<in> set ''0123456789'')"

definition digitVal :: "char \<Rightarrow> nat" where
  "digitVal c = of_char c - 48"

definition decimalValue :: "string \<Rightarrow> nat" where
  "decimalValue s = foldl (\<lambda>a c. 10 * a + digitVal c) 0 s"

definition ParseUint :: "string \<Rightarrow> uint64 option" where
  "ParseUint s =
     (if s = [] \<or> \<not> list_all isDigit s then None
      else if decimalValue s < 2 ^ 64 then Some (of_nat (decimalValue s))
      else None)"

section \<open>The coordination store\<close>

text \<open>
  Modelled from the spec: the key layout of the coordination store, which the package
  \<^verbatim>\<open>etcdutil\<close> computes (its functions \<^verbatim>\<open>EpochPath\<close>, \<^verbatim>\<open>ParentMetaPath\<close>,
  \<^verbatim>\<open>ChildMetaPath\<close> and the job-status path are missing from framework.go, which calls them).
  The spec (section 6) lists four kinds of key, scoped by job name and task ID: the epoch key,
  the job-status key, the per-task parent-meta key and the per-task child-meta key.
\<close>

datatype key =
    EpochPath string
  | JobStatusPath string
  | ParentMetaPath string uint64
  | ChildMetaPath string uint64

text \<open>
  Modelled from the spec: the reasons for which a call of the coordination-store client
  (\<^verbatim>\<open>*etcd.Client\<close>, missing from framework.go) fails. The store cannot be reached (section
  4.1: store unavailable), or a compare-and-swap finds no value under the key, or another
  value than the expected one (section 4.1: the lost race).
\<close>

datatype etcd_error = Unreachable | KeyNotFound | TestFailed

text \<open>
  Modelled from the spec: the replicated key-value store behind the client (section 2), the
  single source of truth that all nodes of a job share. It holds one string per key, and it
  can be reached or not.
\<close>

record etcd =
  reachable :: bool
  kv :: "key \<rightharpoonup> string"

text \<open>
  Modelled from the spec: the client's primitive \<open>set(key, value)\<close> of section 2
  (\<^verbatim>\<open>etcdClient.Set\<close>, missing from framework.go), an unconditional write. It returns Go's
  \<^verbatim>\<open>err\<close> (\<open>None\<close> is \<^verbatim>\<open>nil\<close>) and the store after the call; a failed call leaves the store
  as it was.
\<close>

definition client_Set :: "etcd \<Rightarrow> key \<Rightarrow> string \<Rightarrow> etcd_error option \<times> etcd" where
  "client_Set c k v =
     (if \<not> reachable c then (Some Unreachable, c)
      else (None, c\<lparr>kv := (kv c)(k \<mapsto> v)\<rparr>))"

text \<open>
  Modelled from the spec: the client's primitive \<open>compareAndSwap(key, old, new)\<close> of section 2
  (missing from framework.go), the atomic conditional update: the new value \<open>v\<close> is written
  when the key holds the old value \<open>prevValue\<close>, and the call fails otherwise, leaving the
  store as it was.
\<close>

definition CompareAndSwap :: "etcd \<Rightarrow> key \<Rightarrow> string \<Rightarrow> string \<Rightarrow> etcd_error option \<times> etcd" where
  "CompareAndSwap c k v prevValue =
     (if \<not> reachable c then (Some Unreachable, c)
      else case kv c k of
             None \<Rightarrow> (Some KeyNotFound, c)
           | Some cur \<Rightarrow>
               if cur = prevValue then (None, c\<lparr>kv := (kv c)(k \<mapsto> v)\<rparr>)
               else (Some TestFailed, c))"

text \<open>
  Modelled from the spec: \<^verbatim>\<open>etcdutil.CASEpoch(client, name, prevEpoch, epoch)\<close>, missing
  from framework.go, which calls it. It is the compare-and-swap of the job's epoch key
  (section 4.1) from the decimal of \<open>prevEpoch\<close> to the decimal of \<open>epoch\<close>, and returns the
  client's error.
\<close>

definition CASEpoch :: "etcd \<Rightarrow> string \<Rightarrow> uint64 \<Rightarrow> uint64 \<Rightarrow> etcd_error option \<times> etcd" where
  "CASEpoch c appName prevEpoch epoch =
     CompareAndSwap c (EpochPath appName) (FormatUint (unat epoch)) (FormatUint (unat prevEpoch))"

text \<open>
  Modelled from the spec: \<^verbatim>\<open>etcdutil.SetJobStatus(client, name, status)\<close>, missing from
  framework.go, which calls it. It marks the job's status in the store (section 4.1): the
  unconditional set of the job-status key to the status code, written in decimal. It returns
  the client's error.
\<close>

definition SetJobStatus :: "etcd \<Rightarrow> string \<Rightarrow> nat \<Rightarrow> etcd_error option \<times> etcd" where
  "SetJobStatus c appName status = client_Set c (JobStatusPath appName) (FormatUint status)"

text \<open>The epoch a node reads from the store: the epoch key's value, parsed.\<close>

definition storeEpoch :: "etcd \<Rightarrow> string \<Rightarrow> uint64 option" where
  "storeEpoch c appName =
     (case kv c (EpochPath appName) of None \<Rightarrow> None | Some s \<Rightarrow> ParseUint s)"

section \<open>Channels\<close>

text \<open>
  A Go channel as the runtime keeps it: whether it has been closed, the capacity of its buffer
  (0 for an unbuffered channel), the values in the buffer, the number of goroutines parked in
  a receive, and the values of the goroutines parked in a send, oldest first. The field
  \<open>received\<close> is the history of the values handed to receivers. Every channel of a node has
  been made (none is \<^verbatim>\<open>nil\<close>).
\<close>

record 'a chan =
  isClosed :: bool
  capacity :: nat
  queue :: "'a list"
  receivers :: nat
  sendq :: "'a list"
  received :: "'a list"

text \<open>
  How a call ends: it returns, it ends the process through \<^verbatim>\<open>log.Fatalf\<close>, it panics, or
  it blocks: the goroutine is parked and the call does not return unless another goroutine
  releases it, which may never happen.
\<close>

datatype 'a outcome = Returned 'a | Fatal etcd_error | Panic string | Blocked 'a

text \<open>
  \<^verbatim>\<open>close(ch)\<close> panics on a closed channel and marks an open one closed. Waking the
  goroutines parked on the channel is the runtime's work in those goroutines and is not
  modelled.
\<close>

definition close :: "'a chan \<Rightarrow> ('a chan) outcome" where
  "close ch = (if isClosed ch then Panic ''close of closed channel''
               else Returned (ch\<lparr>isClosed := True\<rparr>))"

text \<open>
  \<^verbatim>\<open>ch <- v\<close> panics on a closed channel. On an open one the value is handed to a receiver
  parked on the channel if there is one; otherwise it is put in the buffer if there is room;
  otherwise the sender is parked with its value and the send blocks until a receiver takes
  the value.
\<close>

definition send :: "'a chan \<Rightarrow> 'a \<Rightarrow> ('a chan) outcome" where
  "send ch v =
     (if isClosed ch then Panic ''send on closed channel''
      else if 0 < receivers ch then
        Returned (ch\<lparr>receivers := receivers ch - 1, received := received ch @ [v]\<rparr>)
      else if length (queue ch) < capacity ch then Returned (ch\<lparr>queue := queue ch @ [v]\<rparr>)
      else Blocked (ch\<lparr>sendq := sendq ch @ [v]\<rparr>))"

section \<open>The framework node (framework.go)\<close>

text \<open>
  \<^verbatim>\<open>type dataRequest struct\<close> as \<^verbatim>\<open>dataRequest\<close> (line 90) builds it: the destination task,
  the epoch and the payload. The fields carry the prefix \<open>dr_\<close> since \<open>taskID\<close> and \<open>epoch\<close>
  are fields of the framework as well.
\<close>

record dataRequest =
  dr_taskID :: uint64
  dr_epoch :: uint64
  dr_req :: string

text \<open>
  Modelled from the spec: the event \<^verbatim>\<open>metaChange\<close> that \<^verbatim>\<open>metaChan\<close> carries, whose
  declaration is missing from framework.go. It is the parsed triple \<open>(peerID, epoch, meta)\<close>
  of section 4.2.
\<close>

record metaChange =
  mc_from :: uint64
  mc_epoch :: uint64
  mc_meta :: string

text \<open>
  Modelled from the spec: the data response that \<^verbatim>\<open>dataRespToSendChan\<close> and
  \<^verbatim>\<open>dataRespChan\<close> carry (\<^verbatim>\<open>dataResponse\<close>, \<^verbatim>\<open>frameworkhttp.DataResponse\<close>), whose
  declarations are missing from framework.go. A response names the peer it comes from, the
  epoch it bears and its payload (section 4.3).
\<close>

record dataResponse =
  resp_taskID :: uint64
  resp_epoch :: uint64
  resp_data :: string

text \<open>
  \<^verbatim>\<open>type framework struct\<close> (lines 17 to 54). The field \<open>etcdClient\<close> stands for the
  coordination store the client reaches, which all nodes of a job share. The notified-set is
  \<^verbatim>\<open>map[string]bool\<close> in the source; the code that encodes its keys is missing from
  framework.go, and the key is the triple \<open>(peerID, epoch, meta)\<close> of the spec (section 3).
  Left out are the fields no method below reads: the logger, the URLs, the listener and the
  user-defined interfaces (task builder, topology, task).
\<close>

record framework =
  name :: string
  taskID :: uint64
  epoch :: uint64
  etcdClient :: etcd
  metaNotified :: "(uint64 \<times> uint64 \<times> string) \<rightharpoonup> bool"
  metaStops :: "bool chan list"
  epochStop :: "bool chan"
  httpStop :: "unit chan"
  heartbeatStop :: "unit chan"
  epochPassed :: "unit chan"
  epochChan :: "uint64 chan"
  metaChan :: "metaChange chan"
  dataReqtoSendChan :: "dataRequest chan"
  dataReqChan :: "dataRequest chan"
  dataRespToSendChan :: "dataResponse chan"
  dataRespChan :: "dataResponse chan"


definition GetEpoch :: "framework \<Rightarrow> uint64" where
  "GetEpoch f = epoch f"

text \<open>
  A method returns how it ended and the node after it: \<open>Returned\<close>, \<open>Fatal\<close> when
  \<^verbatim>\<open>log.Fatalf\<close> ended the process (with the store's error), \<open>Panic\<close> with the panic's message,
  \<open>Blocked\<close> when the call is parked on a channel. The store is part of the node returned in
  every case, since a write made before the process ends stays in the store.
\<close>

type_synonym result = "unit outcome \<times> framework"



definition incEpoch :: "framework \<Rightarrow> uint64 \<Rightarrow> result" where
  "incEpoch f ep =
     (case CASEpoch (etcdClient f) (name f) ep (ep + 1) of
        (Some err, c) \<Rightarrow> (Fatal err, f\<lparr>etcdClient := c\<rparr>)
      | (None, c) \<Rightarrow> (Returned (), f\<lparr>etcdClient := c\<rparr>))"

definition dataRequest :: "framework \<Rightarrow> uint64 \<Rightarrow> string \<Rightarrow> uint64 \<Rightarrow> result" where
  "dataRequest f toID req ep =
     (case send (dataReqtoSendChan f) \<lparr>dr_taskID = toID, dr_epoch = ep, dr_req = req\<rparr> of
        Returned ch \<Rightarrow> (Returned (), f\<lparr>dataReqtoSendChan := ch\<rparr>)
      | Blocked ch \<Rightarrow> (Blocked (), f\<lparr>dataReqtoSendChan := ch\<rparr>)
      | Fatal err \<Rightarrow> (Fatal err, f)
      | Panic msg \<Rightarrow> (Panic msg, f))"

definition stop :: "framework \<Rightarrow> result" where
  "stop f =
     (case close (epochChan f) of
        Returned ch \<Rightarrow> (Returned (), f\<lparr>epochChan := ch\<rparr>)
      | Blocked ch \<Rightarrow> (Blocked (), f\<lparr>epochChan := ch\<rparr>)
      | Fatal err \<Rightarrow> (Fatal err, f)
      | Panic msg \<Rightarrow> (Panic msg, f))"

definition Kill :: "framework \<Rightarrow> result" where
  "Kill f = stop f"

definition ShutdownJob :: "framework \<Rightarrow> result" where
  "ShutdownJob f =
     (case CASEpoch (etcdClient f) (name f) (epoch f) exitEpoch of
        (Some err, c) \<Rightarrow>
          (Panic ''TODO: we should do a set instead of CAS here.'', f\<lparr>etcdClient := c\<rparr>)
      | (None, c) \<Rightarrow>
          (case SetJobStatus c (name f) 0 of
             (Some err, c') \<Rightarrow> (Panic ''SetJobStatus'', f\<lparr>etcdClient := c'\<rparr>)
           | (None, c') \<Rightarrow> (Returned (), f\<lparr>etcdClient := c'\<rparr>)))"

section \<open>Runs of calls against the shared store\<close>




section \<open>The event loop's handlers\<close>

text \<open>
  Modelled from the spec: the key of an event in the notified-set, the triple
  \<open>(peerID, epoch, meta)\<close> (section 3); the code that computes it is missing from framework.go.
\<close>

definition metaKey :: "metaChange \<Rightarrow> uint64 \<times> uint64 \<times> string" where
  "metaKey mc = (mc_from mc, mc_epoch mc, mc_meta mc)"

text \<open>
  Modelled from the spec: the delivery rule of the meta notification protocol (section 4.2),
  whose code (the event loop's handler of \<^verbatim>\<open>metaChan\<close>) is missing from framework.go. On a
  parsed event \<open>(peerID, epoch, meta)\<close> the notified-set is consulted: if the triple is
  present the event is discarded silently, otherwise the triple is marked present and the
  task's meta-received callback is invoked once. The handler returns the node and the
  callbacks it made, in order.
\<close>

definition handleMetaChange :: "framework \<Rightarrow> metaChange \<Rightarrow> framework \<times> metaChange list" where
  "handleMetaChange f mc =
     (case metaNotified f (metaKey mc) of
        Some _ \<Rightarrow> (f, [])
      | None \<Rightarrow> (f\<lparr>metaNotified := (metaNotified f)(metaKey mc \<mapsto> True)\<rparr>, [mc]))"

text \<open>
  Modelled from the spec: the event loop handling a sequence of meta events one after the
  other (section 4.5: events are processed serially), with the callbacks made in order.
\<close>

fun handleMetaChanges :: "framework \<Rightarrow> metaChange list \<Rightarrow> framework \<times> metaChange list" where
  "handleMetaChanges f [] = (f, [])"
| "handleMetaChanges f (mc # mcs) =
     (let r = handleMetaChange f mc; rs = handleMetaChanges (fst r) mcs
      in (fst rs, snd r @ snd rs))"

text \<open>
  Modelled from the spec: the pending data requests of a node (sections 3 and 4.3), the table
  of the event loop being missing from framework.go. They are the requests the node has put
  on its channel of outgoing requests, in the order in which the channel gives them out: those
  handed to a receiver, those in the buffer, those of the parked senders.
\<close>

definition pendingRequests :: "framework \<Rightarrow> dataRequest list" where
  "pendingRequests f =
     received (dataReqtoSendChan f) @ queue (dataReqtoSendChan f) @ sendq (dataReqtoSendChan f)"

text \<open>
  Modelled from the spec: the matching of a data response (section 4.3), whose code (the
  event loop's handler of \<^verbatim>\<open>dataRespChan\<close>) is missing from framework.go. The response is
  matched to a pending request to the peer it comes from, and its epoch must be the one the
  request captured: on a match the task's response callback is invoked and the pending entry
  removed; a response that no pending request to its peer matches in epoch is stale and is
  dropped. The node's own epoch plays no part. The handler returns the pending requests left
  and the responses delivered to the task.
\<close>

fun onDataResponse :: "dataRequest list \<Rightarrow> dataResponse \<Rightarrow> dataRequest list \<times> dataResponse list" where
  "onDataResponse [] resp = ([], [])"
| "onDataResponse (r # pending) resp =
     (if dr_taskID r = resp_taskID resp \<and> dr_epoch r = resp_epoch resp then (pending, [resp])
      else (let rest = onDataResponse pending resp in (r # fst rest, snd rest)))"

text \<open>
  Modelled from the spec: the two states of the event loop (section 4.5), whose code is
  missing from framework.go. A node in \<open>ShuttingDown\<close> has closed its channels and exits.
\<close>

datatype loop_state = Running | ShuttingDown

text \<open>
  Modelled from the spec: a channel once the event loop has closed it on shutting down
  (section 4.5); work in flight is abandoned where it lies, not drained.
\<close>

definition closed_chan :: "'a chan \<Rightarrow> 'a chan" where
  "closed_chan ch = ch\<lparr>isClosed := True\<rparr>"

text \<open>
  Modelled from the spec: what the event loop does on entering \<open>ShuttingDown\<close> (sections 4.5
  and 5), its code being missing from framework.go: all channels are closed, which tears the
  dependent listeners down (HTTP server, heartbeat ticker, per-meta watches). The stop channel
  \<^verbatim>\<open>epochChan\<close> is closed already. Nothing is written to the store.
\<close>

definition releaseResource :: "framework \<Rightarrow> framework" where
  "releaseResource f =
     f\<lparr>metaStops := map closed_chan (metaStops f),
       epochStop := closed_chan (epochStop f),
       httpStop := closed_chan (httpStop f),
       heartbeatStop := closed_chan (heartbeatStop f),
       epochPassed := closed_chan (epochPassed f),
       metaChan := closed_chan (metaChan f),
       dataReqtoSendChan := closed_chan (dataReqtoSendChan f),
       dataReqChan := closed_chan (dataReqChan f),
       dataRespToSendChan := closed_chan (dataRespToSendChan f),
       dataRespChan := closed_chan (dataRespChan f)\<rparr>"

text \<open>
  Modelled from the spec: the event loop's reaction to the node's stop channel (section 5:
  closing it is the only cancellation primitive and terminates the loop), its code being
  missing from framework.go. Once \<^verbatim>\<open>epochChan\<close> is closed the loop enters \<open>ShuttingDown\<close>;
  with the stop channel open it stays \<open>Running\<close>.
\<close>

definition onStop :: "framework \<Rightarrow> loop_state \<times> framework" where
  "onStop f = (if isClosed (epochChan f) then (ShuttingDown, releaseResource f) else (Running, f))"

text \<open>All of a node's channels are closed.\<close>

definition allChannelsClosed :: "framework \<Rightarrow> bool" where
  "allChannelsClosed f =
     (list_all isClosed (metaStops f) \<and> isClosed (epochStop f) \<and> isClosed (httpStop f)
      \<and> isClosed (heartbeatStop f) \<and> isClosed (epochPassed f) \<and> isClosed (epochChan f)
      \<and> isClosed (metaChan f) \<and> isClosed (dataReqtoSendChan f) \<and> isClosed (dataReqChan f)
      \<and> isClosed (dataRespToSendChan f) \<and> isClosed (dataRespChan f))"

section \<open>The blob-storage adapter (azure.go)\<close>

text \<open>
  A Go \<^verbatim>\<open>error\<close> is its message. \<^verbatim>\<open>strings.Split(s, "/")\<close>, the only use the adapter makes
  of \<^verbatim>\<open>strings.Split\<close>: the pieces of \<open>s\<close> between the separators, one more than there are
  separators (a string with no separator is its own single piece).
\<close>

type_synonym error = string

fun Split :: "string \<Rightarrow> char \<Rightarrow> string list" where
  "Split [] sep = [[]]"
| "Split (c # cs) sep =
     (if c = sep then [] # Split cs sep
      else (case Split cs sep of
              [] \<Rightarrow> [[c]]
            | p # ps \<Rightarrow> (c # p) # ps))"

definition convertToAzurePath :: "string \<Rightarrow> error + (string \<times> string)" where
  "convertToAzurePath name' =
     (let afterSplit = Split name' CHR ''/'' in
      if length afterSplit \<noteq> 2 then
        Inl ''azureClient : need correct Azure storage path, example : container/blob''
      else if length (afterSplit ! 0) \<noteq> 32 then
        Inl ''azureClient : the length of container should be 32''
      else Inr (afterSplit ! 0, afterSplit ! 1))"

text \<open>
  \<^verbatim>\<open>fmt.Sprintf("%011d\n", i)\<close>: the decimal of \<open>i\<close> padded with zeros to eleven
  characters, the sign first, and a line feed. \<^verbatim>\<open>base64.StdEncoding.EncodeToString\<close>: three
  bytes become four characters of the standard alphabet, the last group padded with \<open>=\<close>.
\<close>

definition zeroPad :: "nat \<Rightarrow> string \<Rightarrow> string" where
  "zeroPad w s = replicate (w - length s) CHR ''0'' @ s"

definition Sprintf_011d_nl :: "int \<Rightarrow> string" where
  "Sprintf_011d_nl i =
     (if i < 0 then ''-'' @ zeroPad 10 (FormatUint (nat (- i)))
      else zeroPad 11 (FormatUint (nat i))) @ [CHR 0x0A]"

definition encodeStd :: string where
  "encodeStd = ''ABCDEFGHIJKLMNOPQRSTUVWXYZabcdefghijklmnopqrstuvwxyz0123456789+/''"

fun EncodeToString :: "string \<Rightarrow> string" where
  "EncodeToString [] = []"
| "EncodeToString [a] =
     (let x = of_char a :: nat
      in [encodeStd ! (x div 4), encodeStd ! ((x mod 4) * 16), CHR ''='', CHR ''=''])"
| "EncodeToString [a, b] =
     (let x = of_char a :: nat; y = of_char b :: nat
      in [encodeStd ! (x div 4), encodeStd ! ((x mod 4) * 16 + y div 16),
          encodeStd ! ((y mod 16) * 4), CHR ''=''])"
| "EncodeToString (a # b # c # rest) =
     (let x = of_char a :: nat; y = of_char b :: nat; z = of_char c :: nat
      in [encodeStd ! (x div 4), encodeStd ! ((x mod 4) * 16 + y div 16),
          encodeStd ! ((y mod 16) * 4 + z div 64), encodeStd ! (z mod 64)]
         @ EncodeToString rest)"

text \<open>
  The blob service client of the Azure SDK (\<^verbatim>\<open>*storage.BlobStorageClient\<close>), an external
  collaborator: a record of the operations the adapter calls, over a state \<open>'s\<close> of the
  service that the writing operations change. Every operation may return an error. Of a
  container and of a blob the adapter reads the name only, so the listings return names.
  \<^verbatim>\<open>path.Match\<close> of Go's library is a parameter \<open>Match\<close> of \<open>Glob\<close>: it returns whether the
  name matches the pattern, or an error on a malformed pattern.
\<close>

datatype BlockListType = BlockListTypeAll | BlockListTypeCommitted | BlockListTypeUncommitted

datatype BlockStatus = BlockStatusCommitted | BlockStatusUncommitted | BlockStatusLatest

record Block =
  Id :: string
  Status :: BlockStatus

record BlockResponse =
  Name :: string
  Size :: int

record BlockListResponse =
  CommittedBlocks :: "BlockResponse list"
  UncommittedBlocks :: "BlockResponse list"

record 's BlobStorageClient =
  ListContainers :: "'s \<Rightarrow> error + string list"
  ListBlobs :: "'s \<Rightarrow> string \<Rightarrow> error + string list"
  GetBlockList :: "'s \<Rightarrow> string \<Rightarrow> string \<Rightarrow> BlockListType \<Rightarrow> error + BlockListResponse"
  PutBlock :: "'s \<Rightarrow> string \<Rightarrow> string \<Rightarrow> string \<Rightarrow> string \<Rightarrow> error option \<times> 's"
  PutBlockList :: "'s \<Rightarrow> string \<Rightarrow> string \<Rightarrow> Block list \<Rightarrow> error option \<times> 's"

text \<open>
  \<^verbatim>\<open>type AzureFile struct\<close> (the logger left out) and \<^verbatim>\<open>func (f *AzureFile) Write\<close>
  (lines 129 to 160). The result is Go's pair \<^verbatim>\<open>(int, error)\<close>, with \<open>None\<close> for \<^verbatim>\<open>nil\<close>, and
  the state of the service after the call.
\<close>

record 's AzureFile =
  path :: string
  client :: "'s BlobStorageClient"

definition Write :: "'s AzureFile \<Rightarrow> 's \<Rightarrow> string \<Rightarrow> (int \<times> error option) \<times> 's" where
  "Write f s b =
     (case convertToAzurePath (path f) of
        Inl err \<Rightarrow> ((0, None), s)
      | Inr (cnt, blob) \<Rightarrow>
          (case GetBlockList (client f) s cnt blob BlockListTypeAll of
             Inl err \<Rightarrow> ((0, None), s)
           | Inr blockList \<Rightarrow>
               (let blocksLen = int (length (CommittedBlocks blockList))
                                + int (length (UncommittedBlocks blockList));
                    blockId = EncodeToString (Sprintf_011d_nl (blocksLen - 1))
                in case PutBlock (client f) s cnt blob blockId b of
                     (Some err, s1) \<Rightarrow> ((0, Some err), s1)
                   | (None, s1) \<Rightarrow>
                       (case GetBlockList (client f) s1 cnt blob BlockListTypeAll of
                          Inl err \<Rightarrow> ((0, Some err), s1)
                        | Inr blockList' \<Rightarrow>
                            (let amendList =
                                   map (\<lambda>v. \<lparr>Id = Name v, Status = BlockStatusCommitted\<rparr>)
                                     (CommittedBlocks blockList')
                                   @ map (\<lambda>v. \<lparr>Id = Name v, Status = BlockStatusUncommitted\<rparr>)
                                       (UncommittedBlocks blockList')
                             in case PutBlockList (client f) s1 cnt blob amendList of
                                  (Some err, s2) \<Rightarrow> ((0, Some err), s2)
                                | (None, s2) \<Rightarrow> ((0, None), s2))))))"

text \<open>
  \<^verbatim>\<open>func (c *AzureClient) Glob\<close> (lines 170 to 203). The call either panics, on the index
  \<^verbatim>\<open>afterSplit[1]\<close> of line 172 when the split has fewer than two pieces (the panic names the
  index and the length), or returns Go's pair \<^verbatim>\<open>(matches, err)\<close>; a \<^verbatim>\<open>nil\<close> slice is the
  empty list. The two loops are \<open>globBlobs\<close> (lines 192 to 200) and \<open>globContainers\<close>
  (lines 180 to 201), with the matches so far as accumulator.
\<close>

datatype glob_result = IndexOutOfRange nat nat | Returns "string list" "error option"

fun globBlobs ::
  "(string \<Rightarrow> string \<Rightarrow> error + bool) \<Rightarrow> string \<Rightarrow> string \<Rightarrow> string list \<Rightarrow> string list
     \<Rightarrow> error + string list" where
  "globBlobs Match blobPattern cntName [] matches = Inr matches"
| "globBlobs Match blobPattern cntName (v # vs) matches =
     (case Match blobPattern v of
        Inl err \<Rightarrow> Inl err
      | Inr matched \<Rightarrow>
          globBlobs Match blobPattern cntName vs
            (if matched then matches @ [cntName @ ''/'' @ v] else matches))"

fun globContainers ::
  "(string \<Rightarrow> string \<Rightarrow> error + bool) \<Rightarrow> 's BlobStorageClient \<Rightarrow> 's \<Rightarrow> string \<Rightarrow> string
     \<Rightarrow> string list \<Rightarrow> string list \<Rightarrow> error + string list" where
  "globContainers Match c s cntPattern blobPattern [] matches = Inr matches"
| "globContainers Match c s cntPattern blobPattern (cnt # cnts) matches =
     (case Match cntPattern cnt of
        Inl err \<Rightarrow> Inl err
      | Inr matched \<Rightarrow>
          if \<not> matched then globContainers Match c s cntPattern blobPattern cnts matches
          else (case ListBlobs c s cnt of
                  Inl err \<Rightarrow> Inl err
                | Inr blobs \<Rightarrow>
                    (case globBlobs Match blobPattern cnt blobs matches of
                       Inl err \<Rightarrow> Inl err
                     | Inr matches' \<Rightarrow>
                         globContainers Match c s cntPattern blobPattern cnts matches')))"

definition Glob ::
  "(string \<Rightarrow> string \<Rightarrow> error + bool) \<Rightarrow> 's BlobStorageClient \<Rightarrow> 's \<Rightarrow> string \<Rightarrow> glob_result" where
  "Glob Match c s pattern =
     (let afterSplit = Split pattern CHR ''/'' in
      if length afterSplit = 0 then IndexOutOfRange 0 0
      else if length afterSplit = 1 then IndexOutOfRange 1 1
      else
        (let cntPattern = afterSplit ! 0; blobPattern = afterSplit ! 1 in
         if length afterSplit \<noteq> 2 then
           Returns [] (Some ''Glob pattern should follow the Syntax'')
         else case ListContainers c s of
                Inl err \<Rightarrow> Returns [] (Some err)
              | Inr containers \<Rightarrow>
                  (case globContainers Match c s cntPattern blobPattern containers [] of
                     Inl err \<Rightarrow> Returns [] (Some err)
                   | Inr matches \<Rightarrow> Returns matches None)))"

text \<open>
  A sample service for one blob: its state is the blob's block list; it is reachable or not.
\<close>

definition sampleClient :: "bool \<Rightarrow> BlockListResponse BlobStorageClient" where
  "sampleClient up =
     \<lparr>ListContainers = (\<lambda>s. if up then Inr [] else Inl ''service unavailable''),
      ListBlobs = (\<lambda>s cnt. if up then Inr [] else Inl ''service unavailable''),
      GetBlockList = (\<lambda>s cnt blob t. if up then Inr s else Inl ''service unavailable''),
      PutBlock = (\<lambda>s cnt blob blockId b.
         if up then (None, s\<lparr>UncommittedBlocks :=
                       UncommittedBlocks s @ [\<lparr>Name = blockId, Size = int (length b)\<rparr>]\<rparr>)
         else (Some ''service unavailable'', s)),
      PutBlockList = (\<lambda>s cnt blob blocks.
         if up then (None, \<lparr>CommittedBlocks = map (\<lambda>b. \<lparr>Name = Id b, Size = 0\<rparr>) blocks,
                            UncommittedBlocks = []\<rparr>)
         else (Some ''service unavailable'', s))\<rparr>"

section \<open>Sample nodes and stores\<close>

text \<open>
  A reachable store whose only key is the epoch key of the job \<open>job\<close>, a channel as
  \<^verbatim>\<open>make(chan T, n)\<close> returns it, and a node of that job with an empty notified-set and
  open, empty channels that buffer one value.
\<close>

definition jobStore :: "string \<Rightarrow> etcd" where
  "jobStore s = \<lparr>reachable = True, kv = [EpochPath ''job'' \<mapsto> s]\<rparr>"

definition newChan :: "nat \<Rightarrow> 'a chan" where
  "newChan n =
     \<lparr>isClosed = False, capacity = n, queue = [], receivers = 0, sendq = [], received = []\<rparr>"

definition node :: "uint64 \<Rightarrow> uint64 \<Rightarrow> etcd \<Rightarrow> framework" where
  "node tid e c =
     \<lparr>name = ''job'', taskID = tid, epoch = e, etcdClient = c, metaNotified = Map.empty,
      metaStops = [], epochStop = newChan 1, httpStop = newChan 1, heartbeatStop = newChan 1,
      epochPassed = newChan 1, epochChan = newChan 1, metaChan = newChan 1,
      dataReqtoSendChan = newChan 1, dataReqChan = newChan 1, dataRespToSendChan = newChan 1,
      dataRespChan = newChan 1\<rparr>"

section \<open>Decimal rendering: facts\<close>

lemma digit_lt10_cases: "d < 10 \<Longrightarrow> d \<in> {0,1,2,3,4,5,6,7,8,9::nat}"
  by auto

lemma digitVal_digit: "d < 10 \<Longrightarrow> digitVal (digit d) = d"
  by (drule digit_lt10_cases) (auto simp: digitVal_def digit_def)

lemma isDigit_digit: "d < 10 \<Longrightarrow> isDigit (digit d)"
  by (drule digit_lt10_cases) (auto simp: isDigit_def digit_def)

lemma decimalValue_snoc: "decimalValue (s @ [c]) = 10 * decimalValue s + digitVal c"
  by (simp add: decimalValue_def)

lemma decimalValue_FormatUint: "decimalValue (FormatUint n) = n"
proof (induction n rule: FormatUint.induct)
  case (1 n)
  show ?case
  proof (cases "n < 10")
    case True
    then show ?thesis
      by (simp add: FormatUint.simps [of n] decimalValue_def digitVal_digit)
  next
    case False
    with 1 show ?thesis
      by (simp add: FormatUint.simps [of n] decimalValue_snoc digitVal_digit)
  qed
qed

lemma FormatUint_inj: "FormatUint a = FormatUint b \<Longrightarrow> a = b"
  by (metis decimalValue_FormatUint)

lemma FormatUint_nonempty: "FormatUint n \<noteq> []"
  by (subst FormatUint.simps) simp

lemma FormatUint_digits: "list_all isDigit (FormatUint n)"
proof (induction n rule: FormatUint.induct)
  case (1 n)
  show ?case
  proof (cases "n < 10")
    case True
    then show ?thesis
      by (simp add: FormatUint.simps [of n] isDigit_digit)
  next
    case False
    with 1 show ?thesis
      by (simp add: FormatUint.simps [of n] isDigit_digit)
  qed
qed

lemma ParseUint_FormatUint: "ParseUint (FormatUint (unat (e::uint64))) = Some e"
proof -
  have "unat e < 2 ^ 64" using unsigned_less [of e] by simp
  then show ?thesis
    by (simp add: ParseUint_def FormatUint_nonempty FormatUint_digits decimalValue_FormatUint)
qed

lemma FormatUint_unat_eq: "FormatUint (unat (a::uint64)) = FormatUint (unat b) \<longleftrightarrow> a = b"
  by (auto dest!: FormatUint_inj simp: word_unat_eq_iff)

lemma incEpoch_success:
  assumes "reachable (etcdClient f)"
    and "kv (etcdClient f) (EpochPath (name f)) = Some (FormatUint (unat e))"
  shows "incEpoch f e =
           (Returned (), f\<lparr>etcdClient := (etcdClient f)\<lparr>kv := (kv (etcdClient f))
              (EpochPath (name f) \<mapsto> FormatUint (unat (e + 1)))\<rparr>\<rparr>)"
  using assms by (simp add: incEpoch_def CASEpoch_def CompareAndSwap_def)

lemma incEpoch_failure:
  assumes "\<not> (reachable (etcdClient f)
             \<and> kv (etcdClient f) (EpochPath (name f)) = Some (FormatUint (unat e)))"
  shows "snd (incEpoch f e) = f"
    and "fst (incEpoch f e) =
           Fatal (if \<not> reachable (etcdClient f) then Unreachable
                  else if kv (etcdClient f) (EpochPath (name f)) = None then KeyNotFound
                  else TestFailed)"
  using assms by (auto simp: incEpoch_def CASEpoch_def CompareAndSwap_def split: option.splits)

section \<open>The epoch coordinator: advancing the epoch\<close>

text \<open>
  Claim C6. For every observed epoch \<open>e\<close>, \<open>incEpoch f e\<close> attempts exactly the
  compare-and-swap of the job's epoch key from the decimal of \<open>e\<close> to the decimal of
  \<open>e + 1\<close> (the sum is that of \<^verbatim>\<open>uint64\<close>): when the store is reachable and the key holds
  the decimal of \<open>e\<close>, the call returns and the key holds the decimal of \<open>e + 1\<close>, nothing
  else in the node or the store having changed; otherwise the call does not return normally
  and node and store are as before. The call is the client's compare-and-swap with old value
  \<open>e\<close> and new value \<open>e + 1\<close>, its error made fatal.
\<close>

theorem incEpoch_compare_and_swap:
  "(reachable (etcdClient f) \<and> storeEpoch (etcdClient f) (name f) = Some e
      \<and> kv (etcdClient f) (EpochPath (name f)) = Some (FormatUint (unat e))
    \<longrightarrow> fst (incEpoch f e) = Returned ()
        \<and> storeEpoch (etcdClient (snd (incEpoch f e))) (name f) = Some (e + 1)
        \<and> snd (incEpoch f e) = f\<lparr>etcdClient := (etcdClient f)\<lparr>kv := (kv (etcdClient f))
              (EpochPath (name f) \<mapsto> FormatUint (unat (e + 1)))\<rparr>\<rparr>)
   \<and> (\<not> (reachable (etcdClient f)
           \<and> kv (etcdClient f) (EpochPath (name f)) = Some (FormatUint (unat e)))
    \<longrightarrow> fst (incEpoch f e) \<noteq> Returned () \<and> snd (incEpoch f e) = f)
   \<and> incEpoch f e =
       (case CompareAndSwap (etcdClient f) (EpochPath (name f))
               (FormatUint (unat (e + 1))) (FormatUint (unat e)) of
          (Some err, c) \<Rightarrow> (Fatal err, f\<lparr>etcdClient := c\<rparr>)
        | (None, c) \<Rightarrow> (Returned (), f\<lparr>etcdClient := c\<rparr>))"
  by (auto simp: incEpoch_success incEpoch_failure storeEpoch_def ParseUint_FormatUint)
     (simp add: incEpoch_def CASEpoch_def)

theorem incEpoch_compare_and_swap_witness:
  "fst (incEpoch (node 1 7 (jobStore ''7'')) 7) = Returned ()
   \<and> kv (etcdClient (snd (incEpoch (node 1 7 (jobStore ''7'')) 7))) (EpochPath ''job'') = Some ''8''
   \<and> fst (incEpoch (node 1 7 (jobStore ''9'')) 7) \<noteq> Returned ()"
  using incEpoch_compare_and_swap [of "node 1 7 (jobStore ''7'')" 7]
    incEpoch_compare_and_swap [of "node 1 7 (jobStore ''9'')" 7]
  by (simp add: node_def jobStore_def storeEpoch_def ParseUint_def isDigit_def decimalValue_def
      digitVal_def FormatUint.simps digit_def CompareAndSwap_def)

text \<open>
  A store whose epoch reads as another value than the observed one holds another string than
  the one the compare-and-swap expects.
\<close>

lemma storeEpoch_lost_race:
  assumes "storeEpoch c n = Some e'" and "e' \<noteq> e"
  shows "\<exists>s. kv c (EpochPath n) = Some s \<and> s \<noteq> FormatUint (unat e)"
proof (cases "kv c (EpochPath n)")
  case None
  with assms show ?thesis by (simp add: storeEpoch_def)
next
  case (Some s)
  with assms have "ParseUint s = Some e'" by (simp add: storeEpoch_def)
  with assms(2) have "s \<noteq> FormatUint (unat e)"
    by (auto simp: ParseUint_FormatUint)
  with Some show ?thesis by simp
qed

text \<open>
  Claim C2, as amended. A call to \<open>incEpoch\<close> ends the node if and only if the
  compare-and-swap returns an error, whatever the reason: the node proceeds only when its own
  compare-and-swap succeeded, that is when the store is reachable and the epoch key holds the
  observed epoch. A lost race (the store is reachable and its epoch is another one than the
  observed epoch) is fatal with the store's compare failure, and an unreachable store is
  fatal; the store is left as it was in both cases.
\<close>

theorem incEpoch_fatal_on_any_error:
  "((\<exists>err. fst (incEpoch f e) = Fatal err) \<longleftrightarrow>
      \<not> (reachable (etcdClient f)
         \<and> kv (etcdClient f) (EpochPath (name f)) = Some (FormatUint (unat e))))
   \<and> ((\<exists>err. fst (incEpoch f e) = Fatal err) \<longleftrightarrow>
         fst (CASEpoch (etcdClient f) (name f) e (e + 1)) \<noteq> None)
   \<and> (reachable (etcdClient f) \<and> storeEpoch (etcdClient f) (name f) = Some e' \<and> e' \<noteq> e
        \<longrightarrow> incEpoch f e = (Fatal TestFailed, f))
   \<and> (\<not> reachable (etcdClient f) \<longrightarrow> incEpoch f e = (Fatal Unreachable, f))"
proof -
  have a: "(\<exists>err. fst (incEpoch f e) = Fatal err) \<longleftrightarrow>
      \<not> (reachable (etcdClient f)
         \<and> kv (etcdClient f) (EpochPath (name f)) = Some (FormatUint (unat e)))"
    by (auto simp: incEpoch_success incEpoch_failure(2))
  have b: "(\<exists>err. fst (incEpoch f e) = Fatal err) \<longleftrightarrow>
         fst (CASEpoch (etcdClient f) (name f) e (e + 1)) \<noteq> None"
    by (auto simp: incEpoch_def split: prod.splits option.splits)
  have c: "incEpoch f e = (Fatal TestFailed, f)"
    if "reachable (etcdClient f)" "storeEpoch (etcdClient f) (name f) = Some e'" "e' \<noteq> e"
  proof -
    from storeEpoch_lost_race [OF that(2,3)] obtain s
      where s: "kv (etcdClient f) (EpochPath (name f)) = Some s" "s \<noteq> FormatUint (unat e)"
      by blast
    with that(1) show ?thesis
      by (simp add: incEpoch_def CASEpoch_def CompareAndSwap_def)
  qed
  have d: "incEpoch f e = (Fatal Unreachable, f)" if "\<not> reachable (etcdClient f)"
    using that by (simp add: incEpoch_def CASEpoch_def CompareAndSwap_def)
  from a b c d show ?thesis by blast
qed

theorem incEpoch_fatal_on_any_error_witness:
  "incEpoch (node 1 5 (jobStore ''6'')) 5 = (Fatal TestFailed, node 1 5 (jobStore ''6''))
   \<and> incEpoch (node 1 5 ((jobStore ''5'')\<lparr>reachable := False\<rparr>)) 5
       = (Fatal Unreachable, node 1 5 ((jobStore ''5'')\<lparr>reachable := False\<rparr>))"
  using incEpoch_fatal_on_any_error [of "node 1 5 (jobStore ''6'')" 5 6]
    incEpoch_fatal_on_any_error [of "node 1 5 ((jobStore ''5'')\<lparr>reachable := False\<rparr>)" 5 6]
  by (simp add: node_def jobStore_def storeEpoch_def ParseUint_def isDigit_def decimalValue_def
      digitVal_def)

text \<open>
  Claim C2 as the spec states it fails: a node of the job \<open>job\<close> that observed epoch 5 and
  calls \<open>incEpoch\<close> when another node has advanced the epoch to 6 loses the race against a
  reachable store, and the call is fatal to it.
\<close>

theorem incEpoch_lost_race_counterexample:
  "reachable (etcdClient (node 1 5 (jobStore ''6'')))
   \<and> storeEpoch (etcdClient (node 1 5 (jobStore ''6''))) ''job'' = Some 6
   \<and> fst (incEpoch (node 1 5 (jobStore ''6'')) 5) = Fatal TestFailed"
  by (simp add: node_def jobStore_def storeEpoch_def ParseUint_def isDigit_def decimalValue_def
      digitVal_def incEpoch_def CASEpoch_def CompareAndSwap_def FormatUint.simps digit_def)

section \<open>The epoch coordinator: shutting the job down\<close>

text \<open>
  Claim C1, at an input where the code departs from it. The node's epoch is 4 and the store,
  reachable, holds epoch 5 (another node advanced it): \<open>ShutdownJob\<close> panics with the message
  of line 112, the epoch key still holds 5 and not the sentinel, and the job status is not
  written. The shutdown is guarded by the compare-and-swap against the node's own epoch.
\<close>

theorem ShutdownJob_compare_and_swap_fails:
  "storeEpoch (jobStore ''5'') ''job'' = Some 5
   \<and> ShutdownJob (node 1 4 (jobStore ''5''))
       = (Panic ''TODO: we should do a set instead of CAS here.'', node 1 4 (jobStore ''5''))
   \<and> kv (etcdClient (snd (ShutdownJob (node 1 4 (jobStore ''5''))))) (EpochPath ''job'')
       = Some ''5''
   \<and> kv (etcdClient (snd (ShutdownJob (node 1 4 (jobStore ''5''))))) (JobStatusPath ''job'')
       = None"
  by (simp add: node_def jobStore_def storeEpoch_def ParseUint_def isDigit_def decimalValue_def
      digitVal_def ShutdownJob_def CASEpoch_def CompareAndSwap_def FormatUint.simps digit_def
      exitEpoch_def)

text \<open>
  When the store is reachable and holds the node's own epoch, \<open>ShutdownJob\<close> returns, the
  epoch key holds the sentinel and the job-status key the status 0.
\<close>

lemma ShutdownJob_success:
  assumes "reachable (etcdClient f)"
    and "kv (etcdClient f) (EpochPath (name f)) = Some (FormatUint (unat (epoch f)))"
  shows "ShutdownJob f =
           (Returned (), f\<lparr>etcdClient := (etcdClient f)\<lparr>kv := (kv (etcdClient f))
              (EpochPath (name f) \<mapsto> FormatUint (unat exitEpoch),
               JobStatusPath (name f) \<mapsto> FormatUint 0)\<rparr>\<rparr>)"
  using assms
  by (simp add: ShutdownJob_def CASEpoch_def CompareAndSwap_def SetJobStatus_def client_Set_def)

section \<open>The meta notification protocol: raising a meta\<close>



section \<open>Stopping the local node\<close>

lemma releaseResource_closes: "isClosed (epochChan f) \<Longrightarrow> allChannelsClosed (releaseResource f)"
  by (simp add: allChannelsClosed_def releaseResource_def closed_chan_def list_all_iff)

lemma releaseResource_store: "etcdClient (releaseResource f) = etcdClient f"
  by (simp add: releaseResource_def)

text \<open>
  Claim C5. \<open>Kill\<close> writes nothing to the coordination store, however it ends: the store,
  and with it the global epoch and the job status, is as before. On a node whose stop channel
  is open, \<open>Kill\<close> returns having closed that channel and changed nothing else; the event
  loop then enters \<open>ShuttingDown\<close>, where all of the node's channels are closed and the node
  exits, still without a write to the store. (The loop's reaction is the spec's; \<open>Kill\<close>
  itself closes the stop channel only. A second \<open>Kill\<close> panics on the closed channel.)
\<close>

theorem Kill_is_local:
  "etcdClient (snd (Kill f)) = etcdClient f
   \<and> (\<not> isClosed (epochChan f) \<longrightarrow>
        Kill f = (Returned (), f\<lparr>epochChan := (epochChan f)\<lparr>isClosed := True\<rparr>\<rparr>)
        \<and> fst (onStop (snd (Kill f))) = ShuttingDown
        \<and> allChannelsClosed (snd (onStop (snd (Kill f))))
        \<and> etcdClient (snd (onStop (snd (Kill f)))) = etcdClient f)
   \<and> (isClosed (epochChan f) \<longrightarrow> Kill f = (Panic ''close of closed channel'', f))"
proof -
  have a: "etcdClient (snd (Kill f)) = etcdClient f"
    by (simp add: Kill_def stop_def close_def)
  have b: "Kill f = (Panic ''close of closed channel'', f)" if "isClosed (epochChan f)"
    using that by (simp add: Kill_def stop_def close_def)
  have c: "Kill f = (Returned (), f\<lparr>epochChan := (epochChan f)\<lparr>isClosed := True\<rparr>\<rparr>)"
    if "\<not> isClosed (epochChan f)"
    using that by (simp add: Kill_def stop_def close_def)
  have d: "onStop (f\<lparr>epochChan := (epochChan f)\<lparr>isClosed := True\<rparr>\<rparr>) =
             (ShuttingDown, releaseResource (f\<lparr>epochChan := (epochChan f)\<lparr>isClosed := True\<rparr>\<rparr>))"
    by (simp add: onStop_def)
  have e: "allChannelsClosed (releaseResource (f\<lparr>epochChan := (epochChan f)\<lparr>isClosed := True\<rparr>\<rparr>))"
    by (rule releaseResource_closes) simp
  from a b c d e show ?thesis
    by (simp add: releaseResource_store)
qed

theorem Kill_is_local_witness:
  "fst (Kill (node 1 3 (jobStore ''3''))) = Returned ()
   \<and> isClosed (epochChan (snd (Kill (node 1 3 (jobStore ''3'')))))
   \<and> fst (onStop (snd (Kill (node 1 3 (jobStore ''3''))))) = ShuttingDown
   \<and> allChannelsClosed (snd (onStop (snd (Kill (node 1 3 (jobStore ''3''))))))
   \<and> etcdClient (snd (onStop (snd (Kill (node 1 3 (jobStore ''3'')))))) = jobStore ''3''
   \<and> fst (Kill (snd (Kill (node 1 3 (jobStore ''3''))))) = Panic ''close of closed channel''"
proof -
  let ?n = "node 1 3 (jobStore ''3'')"
  have o: "\<not> isClosed (epochChan ?n)" and c: "etcdClient ?n = jobStore ''3''"
    by (simp_all add: node_def newChan_def)
  from o Kill_is_local [of ?n]
  have k: "Kill ?n = (Returned (), ?n\<lparr>epochChan := (epochChan ?n)\<lparr>isClosed := True\<rparr>\<rparr>)"
    and s: "fst (onStop (snd (Kill ?n))) = ShuttingDown"
      "allChannelsClosed (snd (onStop (snd (Kill ?n))))"
      "etcdClient (snd (onStop (snd (Kill ?n)))) = etcdClient ?n"
    by blast+
  from k have o': "isClosed (epochChan (snd (Kill ?n)))" by simp
  with Kill_is_local [of "snd (Kill ?n)"]
  have p: "fst (Kill (snd (Kill ?n))) = Panic ''close of closed channel''" by simp
  from k o' s c p show ?thesis by simp
qed

section \<open>The data exchange router: requesting data\<close>

text \<open>
  A response is delivered exactly when some pending request to its peer captured its epoch.
  The four ways in which \<open>dataRequest\<close> ends, by the state of the channel of outgoing
  requests; on an open channel the request joins the pending requests in each of them, and a
  later \<open>incEpoch\<close> leaves the pending requests alone.
\<close>

lemma onDataResponse_delivered:
  "snd (onDataResponse pending resp) =
     (if \<exists>r \<in> set pending. dr_taskID r = resp_taskID resp \<and> dr_epoch r = resp_epoch resp
      then [resp] else [])"
  by (induction pending) (auto simp: Let_def)

lemma dataRequest_closed:
  "isClosed (dataReqtoSendChan f) \<Longrightarrow>
     dataRequest f toID req e = (Panic ''send on closed channel'', f)"
  by (simp add: dataRequest_def send_def)

lemma dataRequest_handed_over:
  "\<not> isClosed (dataReqtoSendChan f) \<Longrightarrow> 0 < receivers (dataReqtoSendChan f) \<Longrightarrow>
     dataRequest f toID req e =
       (Returned (), f\<lparr>dataReqtoSendChan := (dataReqtoSendChan f)
          \<lparr>receivers := receivers (dataReqtoSendChan f) - 1,
           received := received (dataReqtoSendChan f)
                       @ [\<lparr>dr_taskID = toID, dr_epoch = e, dr_req = req\<rparr>]\<rparr>\<rparr>)"
  by (simp add: dataRequest_def send_def)

lemma dataRequest_buffered:
  "\<not> isClosed (dataReqtoSendChan f) \<Longrightarrow> receivers (dataReqtoSendChan f) = 0 \<Longrightarrow>
   length (queue (dataReqtoSendChan f)) < capacity (dataReqtoSendChan f) \<Longrightarrow>
     dataRequest f toID req e =
       (Returned (), f\<lparr>dataReqtoSendChan := (dataReqtoSendChan f)
          \<lparr>queue := queue (dataReqtoSendChan f)
                    @ [\<lparr>dr_taskID = toID, dr_epoch = e, dr_req = req\<rparr>]\<rparr>\<rparr>)"
  by (simp add: dataRequest_def send_def)

lemma dataRequest_blocked:
  "\<not> isClosed (dataReqtoSendChan f) \<Longrightarrow> receivers (dataReqtoSendChan f) = 0 \<Longrightarrow>
   capacity (dataReqtoSendChan f) \<le> length (queue (dataReqtoSendChan f)) \<Longrightarrow>
     dataRequest f toID req e =
       (Blocked (), f\<lparr>dataReqtoSendChan := (dataReqtoSendChan f)
          \<lparr>sendq := sendq (dataReqtoSendChan f)
                    @ [\<lparr>dr_taskID = toID, dr_epoch = e, dr_req = req\<rparr>]\<rparr>\<rparr>)"
  by (simp add: dataRequest_def send_def)

lemma dataRequest_pending:
  assumes "\<not> isClosed (dataReqtoSendChan f)"
  shows "set (pendingRequests ((snd (dataRequest f toID req e))\<lparr>epoch := e', etcdClient := c'\<rparr>)) =
           insert \<lparr>dr_taskID = toID, dr_epoch = e, dr_req = req\<rparr> (set (pendingRequests f))"
proof -
  consider (handed) "0 < receivers (dataReqtoSendChan f)"
    | (buffered) "receivers (dataReqtoSendChan f) = 0"
        "length (queue (dataReqtoSendChan f)) < capacity (dataReqtoSendChan f)"
    | (blocked) "receivers (dataReqtoSendChan f) = 0"
        "capacity (dataReqtoSendChan f) \<le> length (queue (dataReqtoSendChan f))"
    by linarith
  then show ?thesis
  proof cases
    case handed
    with assms show ?thesis by (simp add: dataRequest_handed_over pendingRequests_def)
  next
    case buffered
    with assms show ?thesis by (simp add: dataRequest_buffered pendingRequests_def)
  next
    case blocked
    with assms show ?thesis by (simp add: dataRequest_blocked pendingRequests_def)
  qed
qed

lemma incEpoch_pending: "pendingRequests (snd (incEpoch f e)) = pendingRequests f"
  by (simp add: incEpoch_def pendingRequests_def split: prod.splits option.splits)

text \<open>
  Claim C7, as amended. For every call \<open>dataRequest f toID req e\<close> the request built holds
  the destination task ID, the payload and the epoch \<open>e\<close> that the caller passes, unchanged;
  the code takes it to be the epoch current at the call and does not compare it with the
  node's epoch. On a closed channel the send panics and nothing is enqueued. On an open
  channel the request is handed to a receiver waiting on the channel, or put in the buffer
  when there is room, and the call returns; when there is neither, the call blocks with the
  request parked on the channel. Nothing else in the node changes. On an open channel the
  request joins the node's pending requests and stays there with its epoch whatever the
  node's epoch and the store become afterwards, also across a later \<open>incEpoch\<close>; and a
  response is then delivered exactly when it comes from the destination task and bears the
  captured epoch \<open>e\<close>, or would have been delivered before the call.
\<close>

theorem dataRequest_captures_argument:
  "(let ch = dataReqtoSendChan f; r = \<lparr>dr_taskID = toID, dr_epoch = e, dr_req = req\<rparr> in
     (isClosed ch \<longrightarrow> dataRequest f toID req e = (Panic ''send on closed channel'', f))
     \<and> (\<not> isClosed ch \<and> 0 < receivers ch \<longrightarrow>
          dataRequest f toID req e =
            (Returned (), f\<lparr>dataReqtoSendChan :=
               ch\<lparr>receivers := receivers ch - 1, received := received ch @ [r]\<rparr>\<rparr>))
     \<and> (\<not> isClosed ch \<and> receivers ch = 0 \<and> length (queue ch) < capacity ch \<longrightarrow>
          dataRequest f toID req e =
            (Returned (), f\<lparr>dataReqtoSendChan := ch\<lparr>queue := queue ch @ [r]\<rparr>\<rparr>))
     \<and> (\<not> isClosed ch \<and> receivers ch = 0 \<and> capacity ch \<le> length (queue ch) \<longrightarrow>
          dataRequest f toID req e =
            (Blocked (), f\<lparr>dataReqtoSendChan := ch\<lparr>sendq := sendq ch @ [r]\<rparr>\<rparr>))
     \<and> (\<not> isClosed ch \<longrightarrow>
          (\<forall>e' c'. set (pendingRequests
                ((snd (dataRequest f toID req e))\<lparr>epoch := e', etcdClient := c'\<rparr>))
              = insert r (set (pendingRequests f)))
          \<and> (\<forall>e2. pendingRequests (snd (incEpoch (snd (dataRequest f toID req e)) e2))
                = pendingRequests (snd (dataRequest f toID req e)))
          \<and> (\<forall>e' c' resp.
                snd (onDataResponse
                       (pendingRequests
                          ((snd (dataRequest f toID req e))\<lparr>epoch := e', etcdClient := c'\<rparr>))
                       resp)
                = (if resp_taskID resp = toID \<and> resp_epoch resp = e then [resp]
                   else snd (onDataResponse (pendingRequests f) resp)))))"
proof -
  let ?ch = "dataReqtoSendChan f"
  let ?r = "\<lparr>dr_taskID = toID, dr_epoch = e, dr_req = req\<rparr>"
  have v: "snd (onDataResponse
                  (pendingRequests ((snd (dataRequest f toID req e))\<lparr>epoch := e', etcdClient := c'\<rparr>))
                  resp)
           = (if resp_taskID resp = toID \<and> resp_epoch resp = e then [resp]
              else snd (onDataResponse (pendingRequests f) resp))"
    if "\<not> isClosed ?ch" for e' c' resp
    unfolding onDataResponse_delivered dataRequest_pending [OF that]
    by auto
  show ?thesis
    unfolding Let_def
    using v
    by (simp add: dataRequest_closed dataRequest_handed_over dataRequest_buffered
        dataRequest_blocked dataRequest_pending incEpoch_pending)
qed

theorem dataRequest_captures_argument_witness:
  "dataRequest (node 1 5 (jobStore ''5'')) 3 ''P'' 5 =
     (Returned (), (node 1 5 (jobStore ''5''))\<lparr>dataReqtoSendChan :=
        (newChan 1)\<lparr>queue := [\<lparr>dr_taskID = 3, dr_epoch = 5, dr_req = ''P''\<rparr>]\<rparr>\<rparr>)
   \<and> snd (onDataResponse
          (pendingRequests ((snd (dataRequest (node 1 5 (jobStore ''5'')) 3 ''P'' 5))
             \<lparr>epoch := 6, etcdClient := jobStore ''6''\<rparr>))
          \<lparr>resp_taskID = 3, resp_epoch = 5, resp_data = ''D''\<rparr>)
       = [\<lparr>resp_taskID = 3, resp_epoch = 5, resp_data = ''D''\<rparr>]
   \<and> snd (onDataResponse
          (pendingRequests ((snd (dataRequest (node 1 5 (jobStore ''5'')) 3 ''P'' 5))
             \<lparr>epoch := 6, etcdClient := jobStore ''6''\<rparr>))
          \<lparr>resp_taskID = 3, resp_epoch = 6, resp_data = ''D''\<rparr>)
       = []
   \<and> dataRequest (snd (dataRequest (node 1 5 (jobStore ''5'')) 3 ''P'' 5)) 3 ''Q'' 6 =
       (Blocked (), (node 1 5 (jobStore ''5''))\<lparr>dataReqtoSendChan :=
          (newChan 1)\<lparr>queue := [\<lparr>dr_taskID = 3, dr_epoch = 5, dr_req = ''P''\<rparr>],
                       sendq := [\<lparr>dr_taskID = 3, dr_epoch = 6, dr_req = ''Q''\<rparr>]\<rparr>\<rparr>)
   \<and> snd (onDataResponse
          (pendingRequests
             (snd (dataRequest (snd (dataRequest (node 1 5 (jobStore ''5'')) 3 ''P'' 5)) 3 ''Q'' 6)))
          \<lparr>resp_taskID = 3, resp_epoch = 6, resp_data = ''D''\<rparr>)
       = [\<lparr>resp_taskID = 3, resp_epoch = 6, resp_data = ''D''\<rparr>]
   \<and> dataRequest ((node 1 5 (jobStore ''5''))\<lparr>dataReqtoSendChan := (newChan 0)\<lparr>receivers := 1\<rparr>\<rparr>)
         3 ''P'' 5 =
       (Returned (), (node 1 5 (jobStore ''5''))\<lparr>dataReqtoSendChan :=
          (newChan 0)\<lparr>received := [\<lparr>dr_taskID = 3, dr_epoch = 5, dr_req = ''P''\<rparr>]\<rparr>\<rparr>)
   \<and> fst (dataRequest ((node 1 5 (jobStore ''5''))\<lparr>dataReqtoSendChan := newChan 0\<rparr>) 3 ''P'' 5)
       = Blocked ()
   \<and> fst (dataRequest
            ((node 1 5 (jobStore ''5''))\<lparr>dataReqtoSendChan := (newChan 1)\<lparr>isClosed := True\<rparr>\<rparr>)
            3 ''P'' 5)
       = Panic ''send on closed channel''"
proof -
  let ?n = "node 1 5 (jobStore ''5'')"
  let ?p = "\<lparr>dr_taskID = 3, dr_epoch = 5, dr_req = ''P''\<rparr>"
  let ?n1 = "?n\<lparr>dataReqtoSendChan := (newChan 1)\<lparr>queue := [?p]\<rparr>\<rparr>"
  have ch: "dataReqtoSendChan ?n = newChan 1" and p0: "pendingRequests ?n = []"
    by (simp_all add: node_def newChan_def pendingRequests_def)
  note t = dataRequest_captures_argument
    [where f = ?n and toID = 3 and req = "''P''" and e = 5, unfolded Let_def]
  from t have 1: "dataRequest ?n 3 ''P'' 5 = (Returned (), ?n1)"
    by (simp add: ch newChan_def)
  have o: "\<not> isClosed (dataReqtoSendChan ?n)"
    by (simp add: ch newChan_def)
  from t o have v: "\<forall>e' c' resp.
      snd (onDataResponse
             (pendingRequests ((snd (dataRequest ?n 3 ''P'' 5))\<lparr>epoch := e', etcdClient := c'\<rparr>))
             resp)
      = (if resp_taskID resp = 3 \<and> resp_epoch resp = 5 then [resp]
         else snd (onDataResponse (pendingRequests ?n) resp))"
    by blast
  have 2: "snd (onDataResponse
          (pendingRequests ((snd (dataRequest ?n 3 ''P'' 5))\<lparr>epoch := 6, etcdClient := jobStore ''6''\<rparr>))
          \<lparr>resp_taskID = 3, resp_epoch = 5, resp_data = ''D''\<rparr>)
       = [\<lparr>resp_taskID = 3, resp_epoch = 5, resp_data = ''D''\<rparr>]"
    by (subst v [rule_format]) simp
  have 3: "snd (onDataResponse
          (pendingRequests ((snd (dataRequest ?n 3 ''P'' 5))\<lparr>epoch := 6, etcdClient := jobStore ''6''\<rparr>))
          \<lparr>resp_taskID = 3, resp_epoch = 6, resp_data = ''D''\<rparr>)
       = []"
    by (subst v [rule_format]) (simp add: p0)
  have ch1: "dataReqtoSendChan ?n1 = (newChan 1)\<lparr>queue := [?p]\<rparr>"
    and p1: "pendingRequests ?n1 = [?p]"
    by (simp_all add: node_def newChan_def pendingRequests_def)
  note t1 = dataRequest_captures_argument
    [where f = ?n1 and toID = 3 and req = "''Q''" and e = 6, unfolded Let_def]
  from t1 have 4: "dataRequest ?n1 3 ''Q'' 6 =
       (Blocked (), ?n\<lparr>dataReqtoSendChan :=
          (newChan 1)\<lparr>queue := [?p], sendq := [\<lparr>dr_taskID = 3, dr_epoch = 6, dr_req = ''Q''\<rparr>]\<rparr>\<rparr>)"
    by (simp add: ch1 newChan_def)
  have 5: "snd (onDataResponse (pendingRequests (snd (dataRequest ?n1 3 ''Q'' 6)))
             \<lparr>resp_taskID = 3, resp_epoch = 6, resp_data = ''D''\<rparr>)
           = [\<lparr>resp_taskID = 3, resp_epoch = 6, resp_data = ''D''\<rparr>]"
    unfolding 4 by (simp add: pendingRequests_def newChan_def)
  let ?u = "?n\<lparr>dataReqtoSendChan := (newChan 0)\<lparr>receivers := 1\<rparr>\<rparr>"
  from dataRequest_captures_argument
    [where f = ?u and toID = 3 and req = "''P''" and e = 5, unfolded Let_def]
  have 6: "dataRequest ?u 3 ''P'' 5 =
       (Returned (), ?n\<lparr>dataReqtoSendChan := (newChan 0)\<lparr>received := [?p]\<rparr>\<rparr>)"
    by (simp add: newChan_def)
  from dataRequest_captures_argument
    [where f = "?n\<lparr>dataReqtoSendChan := newChan 0\<rparr>" and toID = 3 and req = "''P''" and e = 5,
      unfolded Let_def]
  have 7: "fst (dataRequest (?n\<lparr>dataReqtoSendChan := newChan 0\<rparr>) 3 ''P'' 5) = Blocked ()"
    by (simp add: newChan_def)
  from dataRequest_captures_argument
    [where f = "?n\<lparr>dataReqtoSendChan := (newChan 1)\<lparr>isClosed := True\<rparr>\<rparr>" and toID = 3
       and req = "''P''" and e = 5, unfolded Let_def]
  have 8: "fst (dataRequest (?n\<lparr>dataReqtoSendChan := (newChan 1)\<lparr>isClosed := True\<rparr>\<rparr>) 3 ''P'' 5)
           = Panic ''send on closed channel''"
    by (simp add: newChan_def)
  from 2 3 4 5 6 7 8 show ?thesis unfolding 1 snd_conv by (intro conjI refl)
qed

text \<open>
  Claim C7 as the spec states it fails: the epoch captured is the one the caller passes, not
  the node's current one. A node whose epoch is 5 and whose caller passes 99 enqueues a
  request of epoch 99.
\<close>

theorem dataRequest_epoch_counterexample:
  "GetEpoch (node 1 5 (jobStore ''5'')) = 5
   \<and> dataRequest (node 1 5 (jobStore ''5'')) 3 ''P'' 99 =
       (Returned (), (node 1 5 (jobStore ''5''))\<lparr>dataReqtoSendChan :=
          (newChan 1)\<lparr>queue := [\<lparr>dr_taskID = 3, dr_epoch = 99, dr_req = ''P''\<rparr>]\<rparr>\<rparr>)
   \<and> dr_epoch (last (queue (dataReqtoSendChan
         (snd (dataRequest (node 1 5 (jobStore ''5'')) 3 ''P'' 99)))))
       \<noteq> GetEpoch (node 1 5 (jobStore ''5''))"
  by (simp add: GetEpoch_def node_def newChan_def dataRequest_def send_def)

section \<open>The meta notification protocol: delivery\<close>

lemma metaKey_inj: "metaKey a = metaKey b \<Longrightarrow> a = b"
  by (cases a, cases b) (simp add: metaKey_def)

lemma handleMetaChanges_count:
  "count_list (snd (handleMetaChanges f mcs)) mc =
     (if mc \<in> set mcs \<and> metaNotified f (metaKey mc) = None then 1 else 0)"
proof (induction mcs arbitrary: f)
  case Nil
  show ?case by simp
next
  case (Cons x xs)
  show ?case
  proof (cases "metaNotified f (metaKey x)")
    case None
    then have r: "handleMetaChange f x = (f\<lparr>metaNotified := (metaNotified f)(metaKey x \<mapsto> True)\<rparr>, [x])"
      by (simp add: handleMetaChange_def)
    show ?thesis
    proof (cases "x = mc")
      case True
      with None r Cons.IH show ?thesis by (simp add: Let_def)
    next
      case False
      then have "metaKey x \<noteq> metaKey mc" using metaKey_inj by blast
      with False r Cons.IH show ?thesis by (simp add: Let_def)
    qed
  next
    case (Some b)
    then have r: "handleMetaChange f x = (f, [])"
      by (simp add: handleMetaChange_def)
    with Some Cons.IH show ?thesis by (auto simp: Let_def)
  qed
qed

lemma handleMetaChanges_dom:
  "dom (metaNotified (fst (handleMetaChanges f mcs))) = dom (metaNotified f) \<union> metaKey ` set mcs"
proof (induction mcs arbitrary: f)
  case Nil
  show ?case by simp
next
  case (Cons x xs)
  show ?case
    by (cases "metaNotified f (metaKey x)")
      (auto simp: Let_def handleMetaChange_def Cons.IH)
qed

text \<open>
  Claim C3. For every sequence of incoming meta events and every node, the task's
  meta-received callback is invoked exactly once for each distinct triple
  \<open>(peerID, epoch, meta)\<close> of the sequence that the notified-set did not hold at the start,
  and never for another one; on a node with an empty notified-set, exactly once for each
  distinct triple of the sequence. An event whose triple is in the notified-set is discarded
  with no change to the node; otherwise the triple is marked present and the callback fires
  once. After the sequence the notified-set holds the triples it held and those of the events.
\<close>

theorem meta_delivered_once:
  "count_list (snd (handleMetaChanges f mcs)) mc =
     (if mc \<in> set mcs \<and> metaNotified f (metaKey mc) = None then 1 else 0)
   \<and> (metaNotified f = Map.empty \<longrightarrow>
        count_list (snd (handleMetaChanges f mcs)) mc = (if mc \<in> set mcs then 1 else 0))
   \<and> dom (metaNotified (fst (handleMetaChanges f mcs))) = dom (metaNotified f) \<union> metaKey ` set mcs
   \<and> (metaNotified f (metaKey mc) \<noteq> None \<longrightarrow> handleMetaChange f mc = (f, []))
   \<and> (metaNotified f (metaKey mc) = None \<longrightarrow>
        handleMetaChange f mc = (f\<lparr>metaNotified := (metaNotified f)(metaKey mc \<mapsto> True)\<rparr>, [mc]))"
  by (auto simp: handleMetaChanges_count handleMetaChanges_dom handleMetaChange_def)

theorem meta_delivered_once_witness:
  "snd (handleMetaChanges (node 1 2 (jobStore ''2''))
          [\<lparr>mc_from = 7, mc_epoch = 2, mc_meta = ''chunk1''\<rparr>,
           \<lparr>mc_from = 7, mc_epoch = 2, mc_meta = ''chunk1''\<rparr>])
     = [\<lparr>mc_from = 7, mc_epoch = 2, mc_meta = ''chunk1''\<rparr>]
   \<and> count_list (snd (handleMetaChanges (node 1 2 (jobStore ''2''))
          [\<lparr>mc_from = 7, mc_epoch = 2, mc_meta = ''chunk1''\<rparr>,
           \<lparr>mc_from = 7, mc_epoch = 2, mc_meta = ''chunk1''\<rparr>]))
        \<lparr>mc_from = 7, mc_epoch = 2, mc_meta = ''chunk1''\<rparr> = 1"
  using meta_delivered_once [of "node 1 2 (jobStore ''2'')"
      "[\<lparr>mc_from = 7, mc_epoch = 2, mc_meta = ''chunk1''\<rparr>,
        \<lparr>mc_from = 7, mc_epoch = 2, mc_meta = ''chunk1''\<rparr>]"
      "\<lparr>mc_from = 7, mc_epoch = 2, mc_meta = ''chunk1''\<rparr>"]
  by (simp add: node_def handleMetaChange_def metaKey_def)

section \<open>Epoch monotonicity\<close>













section \<open>The blob-storage adapter: globbing\<close>

text \<open>
  The split of a string has one piece more than the string has separators.
\<close>

lemma Split_nonempty: "Split s sep \<noteq> []"
  by (induction s) (auto split: list.splits)

lemma Split_no_separator: "sep \<notin> set s \<Longrightarrow> Split s sep = [s]"
  by (induction s) auto

lemma length_Split: "length (Split s sep) = Suc (count_list s sep)"
  by (induction s) (auto simp: Split_nonempty split: list.splits)

text \<open>
  Claim C9. For every pattern that contains no separator \<open>/\<close>, whatever the service and the
  matcher, \<open>Glob\<close> panics on the index 1 of a split of length 1: it reads the second piece
  before it checks that there are exactly two, and does not return its syntax error.
\<close>

theorem Glob_panics_without_separator:
  assumes "CHR ''/'' \<notin> set pattern"
  shows "Glob Match c s pattern = IndexOutOfRange 1 1
         \<and> Glob Match c s pattern \<noteq> Returns [] (Some ''Glob pattern should follow the Syntax'')"
  using assms by (simp add: Glob_def Split_no_separator)

theorem Glob_panics_without_separator_witness:
  "Glob (\<lambda>p n. Inr True) (sampleClient True) \<lparr>CommittedBlocks = [], UncommittedBlocks = []\<rparr>
     ''part.*'' = IndexOutOfRange 1 1
   \<and> Glob (\<lambda>p n. Inr True) (sampleClient True) \<lparr>CommittedBlocks = [], UncommittedBlocks = []\<rparr>
     '''' = IndexOutOfRange 1 1"
  using Glob_panics_without_separator [of "''part.*''" "\<lambda>p n. Inr True" "sampleClient True"
      "\<lparr>CommittedBlocks = [], UncommittedBlocks = []\<rparr>"]
    Glob_panics_without_separator [of "''''" "\<lambda>p n. Inr True" "sampleClient True"
      "\<lparr>CommittedBlocks = [], UncommittedBlocks = []\<rparr>"]
  by simp

text \<open>
  The syntax error is returned for the patterns with two separators or more.
\<close>

lemma Glob_syntax_error:
  "2 \<le> count_list pattern CHR ''/'' \<Longrightarrow>
     Glob Match c s pattern = Returns [] (Some ''Glob pattern should follow the Syntax'')"
  by (simp add: Glob_def length_Split Let_def Split_nonempty)


section \<open>The blob-storage adapter: writing\<close>

text \<open>
  Claim C10. \<open>Write\<close> returns the byte count 0 in every case. When the file's path does not
  parse as container and blob, and when the first retrieval of the block list fails, it
  returns the count 0 with a \<^verbatim>\<open>nil\<close> error and leaves the service as it was; a write whose
  every step succeeds returns the count 0 with a \<^verbatim>\<open>nil\<close> error as well, so that the result
  does not tell these failures from success.
\<close>

theorem Write_returns_zero:
  "fst (fst (Write f s b)) = 0
   \<and> (\<forall>err. convertToAzurePath (path f) = Inl err \<longrightarrow> Write f s b = ((0, None), s))
   \<and> (\<forall>cnt blob err.
         convertToAzurePath (path f) = Inr (cnt, blob)
         \<and> GetBlockList (client f) s cnt blob BlockListTypeAll = Inl err
         \<longrightarrow> Write f s b = ((0, None), s))
   \<and> (\<forall>cnt blob blockList s1 blockList' s2.
         convertToAzurePath (path f) = Inr (cnt, blob)
         \<and> GetBlockList (client f) s cnt blob BlockListTypeAll = Inr blockList
         \<and> PutBlock (client f) s cnt blob
             (EncodeToString (Sprintf_011d_nl
                (int (length (CommittedBlocks blockList))
                 + int (length (UncommittedBlocks blockList)) - 1))) b = (None, s1)
         \<and> GetBlockList (client f) s1 cnt blob BlockListTypeAll = Inr blockList'
         \<and> PutBlockList (client f) s1 cnt blob
             (map (\<lambda>v. \<lparr>Id = Name v, Status = BlockStatusCommitted\<rparr>) (CommittedBlocks blockList')
              @ map (\<lambda>v. \<lparr>Id = Name v, Status = BlockStatusUncommitted\<rparr>)
                  (UncommittedBlocks blockList')) = (None, s2)
         \<longrightarrow> Write f s b = ((0, None), s2))"
  by (auto simp: Write_def Let_def split: sum.splits prod.splits option.splits)

theorem Write_returns_zero_witness:
  "Write \<lparr>path = ''container/blob'', client = sampleClient True\<rparr>
      \<lparr>CommittedBlocks = [], UncommittedBlocks = []\<rparr> ''data''
     = ((0, None), \<lparr>CommittedBlocks = [], UncommittedBlocks = []\<rparr>)
   \<and> Write \<lparr>path = ''0123456789abcdef0123456789abcdef/blob'', client = sampleClient False\<rparr>
      \<lparr>CommittedBlocks = [], UncommittedBlocks = []\<rparr> ''data''
     = ((0, None), \<lparr>CommittedBlocks = [], UncommittedBlocks = []\<rparr>)
   \<and> Write \<lparr>path = ''0123456789abcdef0123456789abcdef/blob'', client = sampleClient True\<rparr>
      \<lparr>CommittedBlocks = [], UncommittedBlocks = []\<rparr> ''data''
     = ((0, None), \<lparr>CommittedBlocks = [\<lparr>Name = ''LTAwMDAwMDAwMDEK'', Size = 0\<rparr>],
                     UncommittedBlocks = []\<rparr>)"
proof -
  let ?s = "\<lparr>CommittedBlocks = [], UncommittedBlocks = []\<rparr>"
  let ?good = "''0123456789abcdef0123456789abcdef/blob''"
  have bad: "convertToAzurePath ''container/blob''
               = Inl ''azureClient : the length of container should be 32''"
    by (simp add: convertToAzurePath_def)
  have good: "convertToAzurePath ?good = Inr (''0123456789abcdef0123456789abcdef'', ''blob'')"
    by (simp add: convertToAzurePath_def)
  have nine: "replicate 9 CHR ''0'' = ''000000000''"
    by (simp add: numeral_eq_Suc)
  have id: "EncodeToString (Sprintf_011d_nl (- 1)) = ''LTAwMDAwMDAwMDEK''"
    by (simp add: Sprintf_011d_nl_def zeroPad_def FormatUint.simps digit_def encodeStd_def nine)
  from bad Write_returns_zero [of "\<lparr>path = ''container/blob'', client = sampleClient True\<rparr>" ?s "''data''"]
  have 1: "Write \<lparr>path = ''container/blob'', client = sampleClient True\<rparr> ?s ''data'' = ((0, None), ?s)"
    by simp
  from good Write_returns_zero [of "\<lparr>path = ?good, client = sampleClient False\<rparr>" ?s "''data''"]
  have 2: "Write \<lparr>path = ?good, client = sampleClient False\<rparr> ?s ''data'' = ((0, None), ?s)"
    by (simp add: sampleClient_def)
  from good id Write_returns_zero [of "\<lparr>path = ?good, client = sampleClient True\<rparr>" ?s "''data''"]
  have 3: "Write \<lparr>path = ?good, client = sampleClient True\<rparr> ?s ''data''
             = ((0, None), \<lparr>CommittedBlocks = [\<lparr>Name = ''LTAwMDAwMDAwMDEK'', Size = 0\<rparr>],
                             UncommittedBlocks = []\<rparr>)"
    by (simp add: sampleClient_def)
  from 1 2 3 show ?thesis by simp
qed

end
